theory Spec2Isabelle
  imports Main "HOL-Library.Word"
begin

section \<open>Wait-state tracking: yb/util/wait_state.h and wait_state.cc\<close>

text \<open>
  A shallow embedding of the wait-state records of \<^verbatim>\<open>yb::util\<close>. Structs are records,
  fixed-width integers are words, a \<^verbatim>\<open>std::vector<uint64_t>\<close> is a list, a
  \<^verbatim>\<open>std::string\<close> is a \<^typ>\<open>string\<close>. The spin lock of a container only serialises
  access to its metadata; one thread's calls are modelled, in program order, so the lock
  has no counterpart here. \<^verbatim>\<open>TRACK_WAIT_HISTORY\<close> is not defined in the header (the
  \<^verbatim>\<open>#define\<close> is commented out), so the history members do not exist.
\<close>

subsection \<open>WaitStateCode\<close>

text \<open>
  \<^verbatim>\<open>YB_DEFINE_ENUM_TYPE(WaitStateCode, uint32_t, ((Unused, 0)))\<close>: an enumeration on
  \<^verbatim>\<open>uint32_t\<close>. The header lists one enumerator; the codes of the server components are
  added to the same enumeration elsewhere, and a value of the type is any 32-bit code.
\<close>

type_synonym WaitStateCode = "32 word"

definition Unused :: WaitStateCode where
  "Unused = 0"

subsection \<open>AUHMetadata\<close>

record AUHMetadata =
  top_level_request_id :: "64 word list"
  top_level_node_id :: "64 word list"
  query_id :: "64 word"
  current_request_id :: "64 word"
  client_node_host :: "32 word"
  client_node_port :: "16 word"

text \<open>The default member initialisers: empty vectors and zero scalars.\<close>

definition AUHMetadata_default :: AUHMetadata where
  "AUHMetadata_default =
     \<lparr>top_level_request_id = [], top_level_node_id = [], query_id = 0,
      current_request_id = 0, client_node_host = 0, client_node_port = 0\<rparr>"

text \<open>\<^verbatim>\<open>AUHMetadata::UpdateFrom\<close>: six guarded assignments, in the order of the source.\<close>

definition AUHMetadata_UpdateFrom :: "AUHMetadata \<Rightarrow> AUHMetadata \<Rightarrow> AUHMetadata" where
  "AUHMetadata_UpdateFrom this other =
     (let m1 = (if top_level_request_id other \<noteq> []
                then this\<lparr>top_level_request_id := top_level_request_id other\<rparr> else this);
          m2 = (if top_level_node_id other \<noteq> []
                then m1\<lparr>top_level_node_id := top_level_node_id other\<rparr> else m1);
          m3 = (if query_id other \<noteq> 0
                then m2\<lparr>query_id := query_id other\<rparr> else m2);
          m4 = (if current_request_id other \<noteq> 0
                then m3\<lparr>current_request_id := current_request_id other\<rparr> else m3);
          m5 = (if client_node_host other \<noteq> 0
                then m4\<lparr>client_node_host := client_node_host other\<rparr> else m4)
      in (if client_node_port other \<noteq> 0
          then m5\<lparr>client_node_port := client_node_port other\<rparr> else m5))"

subsection \<open>AUHAuxInfo\<close>

text \<open>
  The third member is \<^verbatim>\<open>method\<close> in the source; that word is reserved in Isabelle
  theories, so the field is \<open>method_name\<close> here.
\<close>

record AUHAuxInfo =
  tablet_id :: string
  table_id :: string
  method_name :: string

text \<open>\<^verbatim>\<open>AUHAuxInfo::UpdateFrom\<close>: tablet id, table id, method, in that order.\<close>

definition AUHAuxInfo_UpdateFrom :: "AUHAuxInfo \<Rightarrow> AUHAuxInfo \<Rightarrow> AUHAuxInfo" where
  "AUHAuxInfo_UpdateFrom this other =
     (let a1 = (if tablet_id other \<noteq> [] then this\<lparr>tablet_id := tablet_id other\<rparr> else this);
          a2 = (if table_id other \<noteq> [] then a1\<lparr>table_id := table_id other\<rparr> else a1)
      in (if method_name other \<noteq> [] then a2\<lparr>method_name := method_name other\<rparr> else a2))"

subsection \<open>WaitStateInfo\<close>

text \<open>
  The members \<^verbatim>\<open>code_\<close>, \<^verbatim>\<open>metadata_\<close> and \<^verbatim>\<open>aux_info_\<close>, under the names the class
  prints them with in \<^verbatim>\<open>ToString\<close>.
\<close>

record WaitStateInfo =
  code :: WaitStateCode
  metadata :: AUHMetadata
  aux_info :: AUHAuxInfo

text \<open>\<^verbatim>\<open>WaitStateInfo(AUHMetadata meta)\<close>: the code starts at \<^verbatim>\<open>Unused\<close>.\<close>

definition WaitStateInfo_init :: "AUHMetadata \<Rightarrow> WaitStateInfo" where
  "WaitStateInfo_init meta =
     \<lparr>code = Unused, metadata = meta,
      aux_info = \<lparr>tablet_id = [], table_id = [], method_name = []\<rparr>\<rparr>"

text \<open>\<^verbatim>\<open>set_state\<close> stores the code (the trace and log lines write no member).\<close>

definition set_state :: "WaitStateCode \<Rightarrow> WaitStateInfo \<Rightarrow> WaitStateInfo" where
  "set_state c w = w\<lparr>code := c\<rparr>"

definition get_state :: "WaitStateInfo \<Rightarrow> WaitStateCode" where
  "get_state w = code w"

definition set_current_request_id :: "64 word \<Rightarrow> WaitStateInfo \<Rightarrow> WaitStateInfo" where
  "set_current_request_id v w = w\<lparr>metadata := (metadata w)\<lparr>current_request_id := v\<rparr>\<rparr>"

text \<open>
  \<^verbatim>\<open>set_top_level_request_id\<close>: the braced list
  \<^verbatim>\<open>{top_level_request_id, top_level_request_id * top_level_request_id}\<close> of two
  \<^verbatim>\<open>uint64_t\<close>; the product is the unsigned 64-bit one.
\<close>

definition set_top_level_request_id :: "64 word \<Rightarrow> WaitStateInfo \<Rightarrow> WaitStateInfo" where
  "set_top_level_request_id v w =
     w\<lparr>metadata := (metadata w)\<lparr>top_level_request_id := [v, v * v]\<rparr>\<rparr>"

definition set_query_id :: "64 word \<Rightarrow> WaitStateInfo \<Rightarrow> WaitStateInfo" where
  "set_query_id v w = w\<lparr>metadata := (metadata w)\<lparr>query_id := v\<rparr>\<rparr>"

definition set_top_level_node_id :: "64 word list \<Rightarrow> WaitStateInfo \<Rightarrow> WaitStateInfo" where
  "set_top_level_node_id v w = w\<lparr>metadata := (metadata w)\<lparr>top_level_node_id := v\<rparr>\<rparr>"

definition UpdateMetadata :: "AUHMetadata \<Rightarrow> WaitStateInfo \<Rightarrow> WaitStateInfo" where
  "UpdateMetadata meta w = w\<lparr>metadata := AUHMetadata_UpdateFrom (metadata w) meta\<rparr>"

definition UpdateAuxInfo :: "AUHAuxInfo \<Rightarrow> WaitStateInfo \<Rightarrow> WaitStateInfo" where
  "UpdateAuxInfo aux w = w\<lparr>aux_info := AUHAuxInfo_UpdateFrom (aux_info w) aux\<rparr>"

subsection \<open>The thread-local current wait state\<close>

text \<open>
  \<^verbatim>\<open>WaitStateInfoPtr\<close> is \<^verbatim>\<open>std::shared_ptr<WaitStateInfo>\<close>: either null or the address
  of a container. A shared pointer keeps its container alive, so every address designates
  one, and the store is a total map from addresses to containers; two pointers with the
  same address share the container. \<open>threadlocal_wait_state\<close> is the slot
  \<^verbatim>\<open>threadlocal_wait_state_\<close> of the calling thread.
\<close>

type_synonym WaitStateInfoPtr = "nat option"

record thread_state =
  objects :: "nat \<Rightarrow> WaitStateInfo"
  threadlocal_wait_state :: WaitStateInfoPtr

text \<open>A member call \<^verbatim>\<open>ptr->f(...)\<close> on the container at address \<open>a\<close>.\<close>

definition at_ptr :: "nat \<Rightarrow> (WaitStateInfo \<Rightarrow> WaitStateInfo) \<Rightarrow> thread_state \<Rightarrow> thread_state" where
  "at_ptr a f s = s\<lparr>objects := (objects s)(a := f (objects s a))\<rparr>"

text \<open>
  \<^verbatim>\<open>CurrentWaitState\<close> returns the slot (and logs when it is null);
  \<^verbatim>\<open>SetCurrentWaitState\<close> overwrites it.
\<close>

definition CurrentWaitState :: "thread_state \<Rightarrow> WaitStateInfoPtr" where
  "CurrentWaitState s = threadlocal_wait_state s"

definition SetCurrentWaitState :: "WaitStateInfoPtr \<Rightarrow> thread_state \<Rightarrow> thread_state" where
  "SetCurrentWaitState wait_state_arg s = s\<lparr>threadlocal_wait_state := wait_state_arg\<rparr>"

text \<open>
  The macros \<^verbatim>\<open>SET_WAIT_STATUS_TO(ptr, state)\<close>, which is
  \<^verbatim>\<open>if (ptr) ptr->set_state(state)\<close>, and \<^verbatim>\<open>SET_WAIT_STATUS(state)\<close>, which applies
  it to \<^verbatim>\<open>CurrentWaitState()\<close>.
\<close>

definition SET_WAIT_STATUS_TO :: "WaitStateInfoPtr \<Rightarrow> WaitStateCode \<Rightarrow> thread_state \<Rightarrow> thread_state" where
  "SET_WAIT_STATUS_TO ptr st s =
     (case ptr of None \<Rightarrow> s | Some a \<Rightarrow> at_ptr a (set_state st) s)"

definition SET_WAIT_STATUS :: "WaitStateCode \<Rightarrow> thread_state \<Rightarrow> thread_state" where
  "SET_WAIT_STATUS st s = SET_WAIT_STATUS_TO (CurrentWaitState s) st s"

subsection \<open>ScopedWaitState, the adoption guard\<close>

text \<open>
  The guard's only member is \<^verbatim>\<open>prev_state_\<close>, a pointer; it is \<open>prev_wait_state\<close> here,
  since the status guard below has a member of the same name that holds a code.
\<close>

record ScopedWaitState =
  prev_wait_state :: WaitStateInfoPtr

definition ScopedWaitState_ctor :: "WaitStateInfoPtr \<Rightarrow> thread_state \<Rightarrow> ScopedWaitState \<times> thread_state" where
  "ScopedWaitState_ctor wait_state_arg s =
     (\<lparr>prev_wait_state = CurrentWaitState s\<rparr>, SetCurrentWaitState wait_state_arg s)"

definition ScopedWaitState_dtor :: "ScopedWaitState \<Rightarrow> thread_state \<Rightarrow> thread_state" where
  "ScopedWaitState_dtor g s = SetCurrentWaitState (prev_wait_state g) s"

subsection \<open>ScopedWaitStatus, the status guard\<close>

text \<open>
  The members \<^verbatim>\<open>wait_state_\<close>, \<^verbatim>\<open>state_\<close> and \<^verbatim>\<open>prev_state_\<close>. The last has no
  initialiser and the constructors assign it only under \<^verbatim>\<open>if (wait_state_)\<close>, so it is
  an option: \<open>None\<close> is the member that was never written. Reading it in that state is
  the fault \<open>indeterminate_read\<close>, so that a run that returns \<open>Inr\<close> has not read it.
\<close>

record ScopedWaitStatus =
  wait_state :: WaitStateInfoPtr
  state :: WaitStateCode
  prev_state :: "WaitStateCode option"

datatype fault = indeterminate_read

text \<open>The constructor with a container and a code.\<close>

definition ScopedWaitStatus_ctor :: "WaitStateInfoPtr \<Rightarrow> WaitStateCode \<Rightarrow> thread_state \<Rightarrow> ScopedWaitStatus \<times> thread_state" where
  "ScopedWaitStatus_ctor wait_state_arg st s =
     (case wait_state_arg of
        None \<Rightarrow> (\<lparr>wait_state = None, state = st, prev_state = None\<rparr>, s)
      | Some a \<Rightarrow>
          (\<lparr>wait_state = Some a, state = st, prev_state = Some (get_state (objects s a))\<rparr>,
           at_ptr a (set_state st) s))"

text \<open>The constructor with a code only: the container is \<^verbatim>\<open>CurrentWaitState()\<close>.\<close>

definition ScopedWaitStatus_ctor_current :: "WaitStateCode \<Rightarrow> thread_state \<Rightarrow> ScopedWaitStatus \<times> thread_state" where
  "ScopedWaitStatus_ctor_current st s = ScopedWaitStatus_ctor (CurrentWaitState s) st s"

text \<open>
  \<^verbatim>\<open>ResetToPrevStatus\<close>: \<^verbatim>\<open>if (wait_state_ && wait_state_->get_state() == state_)\<close>
  then \<^verbatim>\<open>wait_state_->set_state(prev_state_)\<close>. The destructor calls it.
\<close>

definition ResetToPrevStatus :: "ScopedWaitStatus \<Rightarrow> thread_state \<Rightarrow> fault + thread_state" where
  "ResetToPrevStatus g s =
     (case wait_state g of
        None \<Rightarrow> Inr s
      | Some a \<Rightarrow>
          if get_state (objects s a) = state g
          then (case prev_state g of
                  None \<Rightarrow> Inl indeterminate_read
                | Some p \<Rightarrow> Inr (at_ptr a (set_state p) s))
          else Inr s)"

definition ScopedWaitStatus_dtor :: "ScopedWaitStatus \<Rightarrow> thread_state \<Rightarrow> fault + thread_state" where
  "ScopedWaitStatus_dtor g s = ResetToPrevStatus g s"

subsection \<open>The wire messages\<close>

text \<open>
  Modelled from the spec: the message types that instantiate the template parameter
  \<^verbatim>\<open>PB\<close> are not among the sources. The spec gives their fields: \<^verbatim>\<open>top_level_request_id\<close>
  and \<^verbatim>\<open>top_level_node_id\<close> (repeated), \<^verbatim>\<open>query_id\<close>, \<^verbatim>\<open>current_request_id\<close>,
  \<^verbatim>\<open>client_node_host\<close>, \<^verbatim>\<open>client_node_port\<close>, and the nested aux message with
  \<^verbatim>\<open>tablet_id\<close>, \<^verbatim>\<open>table_id\<close>, \<^verbatim>\<open>method\<close>; a field can be omitted. A singular field is
  an option (\<open>None\<close>: not written, \<^verbatim>\<open>has_x()\<close> is false and the getter returns the default,
  zero or the empty string); \<^verbatim>\<open>set_x(v)\<close> makes it \<open>Some v\<close>, also when \<open>v\<close> is the
  default. A repeated field is the list of its elements, \<^verbatim>\<open>add_x(v)\<close> appends, and it is
  present when the list is not empty. The port travels as a 32-bit number (the source
  narrows it with \<^verbatim>\<open>static_cast<uint16_t>\<close>).
\<close>

record AUHMetadataPB =
  pb_top_level_request_id :: "64 word list"
  pb_top_level_node_id :: "64 word list"
  pb_query_id :: "64 word option"
  pb_current_request_id :: "64 word option"
  pb_client_node_host :: "32 word option"
  pb_client_node_port :: "32 word option"

record AUHAuxInfoPB =
  pb_tablet_id :: "string option"
  pb_table_id :: "string option"
  pb_method :: "string option"

text \<open>A message with nothing written.\<close>

definition AUHMetadataPB_empty :: AUHMetadataPB where
  "AUHMetadataPB_empty =
     \<lparr>pb_top_level_request_id = [], pb_top_level_node_id = [], pb_query_id = None,
      pb_current_request_id = None, pb_client_node_host = None, pb_client_node_port = None\<rparr>"

definition AUHAuxInfoPB_empty :: AUHAuxInfoPB where
  "AUHAuxInfoPB_empty = \<lparr>pb_tablet_id = None, pb_table_id = None, pb_method = None\<rparr>"

text \<open>The getter of a singular numeric field, of a singular string field, and \<^verbatim>\<open>has_x\<close>.\<close>

definition getter :: "'a::zero option \<Rightarrow> 'a" where
  "getter f = (case f of None \<Rightarrow> 0 | Some v \<Rightarrow> v)"

definition string_getter :: "string option \<Rightarrow> string" where
  "string_getter f = (case f of None \<Rightarrow> [] | Some v \<Rightarrow> v)"

definition has :: "'a option \<Rightarrow> bool" where
  "has f = (f \<noteq> None)"

definition has_repeated :: "'a list \<Rightarrow> bool" where
  "has_repeated xs = (xs \<noteq> [])"

subsection \<open>Conversions of AUHMetadata and AUHAuxInfo\<close>

text \<open>The test \<^verbatim>\<open>(int)v.size() == 2\<close> reads the size through a cast to \<^verbatim>\<open>int\<close>.\<close>

definition size_as_int :: "'a list \<Rightarrow> int" where
  "size_as_int xs = sint (word_of_nat (length xs) :: 32 word)"

text \<open>\<^verbatim>\<open>AUHMetadata::ToPB\<close> writes into the message it is given.\<close>

definition AUHMetadata_ToPB :: "AUHMetadata \<Rightarrow> AUHMetadataPB \<Rightarrow> AUHMetadataPB" where
  "AUHMetadata_ToPB this pb =
     (let p1 = (if size_as_int (top_level_request_id this) = 2
                then pb\<lparr>pb_top_level_request_id := pb_top_level_request_id pb
                           @ [top_level_request_id this ! 0, top_level_request_id this ! 1]\<rparr>
                else pb);
          p2 = (if size_as_int (top_level_node_id this) = 2
                then p1\<lparr>pb_top_level_node_id := pb_top_level_node_id p1
                           @ [top_level_node_id this ! 0, top_level_node_id this ! 1]\<rparr>
                else p1);
          p3 = (if query_id this \<noteq> 0 then p2\<lparr>pb_query_id := Some (query_id this)\<rparr> else p2);
          p4 = (if current_request_id this \<noteq> 0
                then p3\<lparr>pb_current_request_id := Some (current_request_id this)\<rparr> else p3);
          p5 = (if client_node_host this \<noteq> 0
                then p4\<lparr>pb_client_node_host := Some (client_node_host this)\<rparr> else p4)
      in (if client_node_port this \<noteq> 0
          then p5\<lparr>pb_client_node_port := Some (ucast (client_node_port this))\<rparr> else p5))"

definition AUHMetadata_FromPB :: "AUHMetadataPB \<Rightarrow> AUHMetadata" where
  "AUHMetadata_FromPB pb =
     \<lparr>top_level_request_id = pb_top_level_request_id pb,
      top_level_node_id = pb_top_level_node_id pb,
      query_id = getter (pb_query_id pb),
      current_request_id = getter (pb_current_request_id pb),
      client_node_host = getter (pb_client_node_host pb),
      client_node_port = ucast (getter (pb_client_node_port pb))\<rparr>"

text \<open>
  \<^verbatim>\<open>AUHMetadata::UpdateFromPB\<close>, in the order of the source: node id, request id, query
  id, host, port, current request id. Five tests ask \<^verbatim>\<open>has_x()\<close>; the port's test is
  \<^verbatim>\<open>if (pb.client_node_port())\<close>, on the value.
\<close>

definition AUHMetadata_UpdateFromPB :: "AUHMetadataPB \<Rightarrow> AUHMetadata \<Rightarrow> AUHMetadata" where
  "AUHMetadata_UpdateFromPB pb this =
     (let m1 = (if has_repeated (pb_top_level_node_id pb)
                then this\<lparr>top_level_node_id := pb_top_level_node_id pb\<rparr> else this);
          m2 = (if has_repeated (pb_top_level_request_id pb)
                then m1\<lparr>top_level_request_id := pb_top_level_request_id pb\<rparr> else m1);
          m3 = (if has (pb_query_id pb)
                then m2\<lparr>query_id := getter (pb_query_id pb)\<rparr> else m2);
          m4 = (if has (pb_client_node_host pb)
                then m3\<lparr>client_node_host := getter (pb_client_node_host pb)\<rparr> else m3);
          m5 = (if getter (pb_client_node_port pb) \<noteq> 0
                then m4\<lparr>client_node_port := ucast (getter (pb_client_node_port pb))\<rparr> else m4)
      in (if has (pb_current_request_id pb)
          then m5\<lparr>current_request_id := getter (pb_current_request_id pb)\<rparr> else m5))"

text \<open>\<^verbatim>\<open>AUHAuxInfo::ToPB\<close>: three setters, with no test.\<close>

definition AUHAuxInfo_ToPB :: "AUHAuxInfo \<Rightarrow> AUHAuxInfoPB \<Rightarrow> AUHAuxInfoPB" where
  "AUHAuxInfo_ToPB this pb =
     pb\<lparr>pb_tablet_id := Some (tablet_id this), pb_table_id := Some (table_id this),
        pb_method := Some (method_name this)\<rparr>"

definition AUHAuxInfo_FromPB :: "AUHAuxInfoPB \<Rightarrow> AUHAuxInfo" where
  "AUHAuxInfo_FromPB pb =
     \<lparr>tablet_id = string_getter (pb_tablet_id pb), table_id = string_getter (pb_table_id pb),
      method_name = string_getter (pb_method pb)\<rparr>"

text \<open>
  The static \<^verbatim>\<open>WaitStateInfo::UpdateMetadataFromPB\<close>: when the thread has a current wait
  state, \<^verbatim>\<open>wait_state->UpdateMetadata(AUHMetadata::FromPB(pb))\<close>.
\<close>

definition UpdateMetadataFromPB :: "AUHMetadataPB \<Rightarrow> thread_state \<Rightarrow> thread_state" where
  "UpdateMetadataFromPB pb s =
     (case CurrentWaitState s of
        None \<Rightarrow> s
      | Some a \<Rightarrow> at_ptr a (UpdateMetadata (AUHMetadata_FromPB pb)) s)"

subsection \<open>Parsing the client address\<close>

text \<open>
  \<^verbatim>\<open>set_client_node_ip\<close> calls three library functions. \<^verbatim>\<open>std::string::find\<close> gives the
  index of the first colon or \<^verbatim>\<open>npos\<close>; \<^verbatim>\<open>c_str()\<close> hands the callee the characters up
  to the first NUL; \<^verbatim>\<open>std::stoi\<close> is specified by the C++ standard through
  \<^verbatim>\<open>strtol\<close> in base 10: it skips leading white space, takes an optional sign and then
  the longest run of decimal digits, throws \<^verbatim>\<open>std::invalid_argument\<close> when there is no
  digit to convert and \<^verbatim>\<open>std::out_of_range\<close> when the number does not fit an
  \<^verbatim>\<open>int\<close>. An exception is the left summand of the result, together with the record
  as the statements before the throw have left it.
\<close>

datatype exception = invalid_argument | out_of_range

fun find_char :: "char \<Rightarrow> string \<Rightarrow> nat option" where
  "find_char c [] = None"
| "find_char c (x # xs) = (if x = c then Some 0 else map_option Suc (find_char c xs))"

definition c_str :: "string \<Rightarrow> string" where
  "c_str s = takeWhile (\<lambda>c. c \<noteq> CHR 0x00) s"

definition isspace :: "char \<Rightarrow> bool" where
  "isspace c = (c = CHR '' '' \<or> c = CHR 0x09 \<or> c = CHR 0x0A \<or> c = CHR 0x0B
                \<or> c = CHR 0x0C \<or> c = CHR 0x0D)"

definition isdigit :: "char \<Rightarrow> bool" where
  "isdigit c = (48 \<le> (of_char c :: nat) \<and> (of_char c :: nat) \<le> 57)"

definition digit_of :: "char \<Rightarrow> nat" where
  "digit_of c = of_char c - 48"

fun decimal :: "nat \<Rightarrow> string \<Rightarrow> nat" where
  "decimal acc [] = acc"
| "decimal acc (c # cs) = decimal (10 * acc + digit_of c) cs"

definition stoi :: "string \<Rightarrow> exception + int" where
  "stoi str =
     (let s1 = dropWhile isspace (c_str str);
          neg = (case s1 of [] \<Rightarrow> False | c # cs \<Rightarrow> c = CHR ''-'');
          s2 = (case s1 of [] \<Rightarrow> []
                | c # cs \<Rightarrow> if c = CHR ''-'' then cs else if c = CHR ''+'' then cs else s1);
          ds = takeWhile isdigit s2;
          v = (if neg then - int (decimal 0 ds) else int (decimal 0 ds))
      in if ds = [] then Inl invalid_argument
         else if v < - (2 ^ 31) then Inl out_of_range
         else if 2 ^ 31 - 1 < v then Inl out_of_range
         else Inr v)"

text \<open>
  The two substrings: \<^verbatim>\<open>endpoint.substr(0, colon_position)\<close> and
  \<^verbatim>\<open>endpoint.substr(colon_position + 1)\<close>. Without a colon the position is \<^verbatim>\<open>npos\<close>,
  the largest \<^verbatim>\<open>size_t\<close>: the first substring is the whole string, and
  \<^verbatim>\<open>npos + 1\<close> wraps to 0, so the second is the whole string too.
\<close>

definition host_substr :: "string \<Rightarrow> string" where
  "host_substr endpoint =
     (case find_char (CHR '':'') endpoint of None \<Rightarrow> endpoint | Some i \<Rightarrow> take i endpoint)"

definition port_substr :: "string \<Rightarrow> string" where
  "port_substr endpoint =
     (case find_char (CHR '':'') endpoint of None \<Rightarrow> endpoint | Some i \<Rightarrow> drop (i + 1) endpoint)"

text \<open>
  \<^verbatim>\<open>AUHMetadata::set_client_node_ip\<close>. The address parser \<^verbatim>\<open>ntohl(inet_addr(...))\<close>
  belongs to the C library and is the parameter \<open>host_order_inet_addr\<close>: it returns a
  32-bit number for every string and never fails. The \<^verbatim>\<open>int\<close> that \<^verbatim>\<open>std::stoi\<close>
  returns is narrowed to the 16-bit port by the assignment.
\<close>

definition AUHMetadata_set_client_node_ip ::
  "(string \<Rightarrow> 32 word) \<Rightarrow> string \<Rightarrow> AUHMetadata \<Rightarrow> (exception \<times> AUHMetadata) + AUHMetadata" where
  "AUHMetadata_set_client_node_ip host_order_inet_addr endpoint this =
     (let m0 = this\<lparr>client_node_host := 0, client_node_port := 0\<rparr>;
          m1 = m0\<lparr>client_node_host := host_order_inet_addr (c_str (host_substr endpoint))\<rparr>
      in case stoi (port_substr endpoint) of
           Inl e \<Rightarrow> Inl (e, m1)
         | Inr v \<Rightarrow> Inr (m1\<lparr>client_node_port := word_of_int v\<rparr>))"

text \<open>\<^verbatim>\<open>WaitStateInfo::set_client_node_ip\<close> forwards to the metadata under the lock.\<close>

definition set_client_node_ip ::
  "(string \<Rightarrow> 32 word) \<Rightarrow> string \<Rightarrow> WaitStateInfo \<Rightarrow> (exception \<times> WaitStateInfo) + WaitStateInfo" where
  "set_client_node_ip host_order_inet_addr endpoint w =
     (case AUHMetadata_set_client_node_ip host_order_inet_addr endpoint (metadata w) of
        Inl (e, m) \<Rightarrow> Inl (e, w\<lparr>metadata := m\<rparr>)
      | Inr m \<Rightarrow> Inr (w\<lparr>metadata := m\<rparr>))"

subsection \<open>Example states\<close>

text \<open>A thread with no current wait state, every container freshly constructed.\<close>

definition idle_thread :: thread_state where
  "idle_thread =
     \<lparr>objects = (\<lambda>a. WaitStateInfo_init AUHMetadata_default), threadlocal_wait_state = None\<rparr>"

text \<open>
  A fully populated metadata and aux record, and a thread whose current wait state is the
  container 0, constructed from that metadata.
\<close>

definition sample_metadata :: AUHMetadata where
  "sample_metadata =
     \<lparr>top_level_request_id = [5, 25], top_level_node_id = [1, 2], query_id = 42,
      current_request_id = 7, client_node_host = 0x0A000001, client_node_port = 5433\<rparr>"

definition sample_aux_info :: AUHAuxInfo where
  "sample_aux_info = \<lparr>tablet_id = ''tablet-1'', table_id = ''table-1'', method_name = ''Write''\<rparr>"

definition busy_thread :: thread_state where
  "busy_thread =
     \<lparr>objects = (\<lambda>a. WaitStateInfo_init sample_metadata), threadlocal_wait_state = Some 0\<rparr>"

section \<open>Properties\<close>

text \<open>
  C3, the fill-in-the-blanks merge. After \<open>A.UpdateFrom(B)\<close> every field of the result is
  the field of \<open>B\<close> where \<open>B\<close> has it set (a non-empty vector or string, a non-zero
  number) and the field of \<open>A\<close> as it was where \<open>B\<close> has it unset; so a field is
  overwritten only when \<open>B\<close> sets it. The same holds for the three strings of the
  auxiliary record.
\<close>

theorem UpdateFrom_fills_blanks:
  "top_level_request_id (AUHMetadata_UpdateFrom A B) =
     (if top_level_request_id B = [] then top_level_request_id A else top_level_request_id B)
   \<and> top_level_node_id (AUHMetadata_UpdateFrom A B) =
     (if top_level_node_id B = [] then top_level_node_id A else top_level_node_id B)
   \<and> query_id (AUHMetadata_UpdateFrom A B) =
     (if query_id B = 0 then query_id A else query_id B)
   \<and> current_request_id (AUHMetadata_UpdateFrom A B) =
     (if current_request_id B = 0 then current_request_id A else current_request_id B)
   \<and> client_node_host (AUHMetadata_UpdateFrom A B) =
     (if client_node_host B = 0 then client_node_host A else client_node_host B)
   \<and> client_node_port (AUHMetadata_UpdateFrom A B) =
     (if client_node_port B = 0 then client_node_port A else client_node_port B)
   \<and> tablet_id (AUHAuxInfo_UpdateFrom X Y) =
     (if tablet_id Y = [] then tablet_id X else tablet_id Y)
   \<and> table_id (AUHAuxInfo_UpdateFrom X Y) =
     (if table_id Y = [] then table_id X else table_id Y)
   \<and> method_name (AUHAuxInfo_UpdateFrom X Y) =
     (if method_name Y = [] then method_name X else method_name Y)"
  by (simp add: AUHMetadata_UpdateFrom_def AUHAuxInfo_UpdateFrom_def Let_def)

text \<open>
  C7, the derived request id. For every 64-bit \<open>x\<close>,
  \<open>set_top_level_request_id(x)\<close> stores the two-element vector \<open>(x, x * x)\<close>, the product
  taken in \<^verbatim>\<open>uint64_t\<close> (so its value is the square modulo \<open>2^64\<close>), and changes nothing
  else of the container; for \<open>x = 5\<close> the stored pair is \<open>(5, 25)\<close>.
\<close>

theorem set_top_level_request_id_pair:
  "top_level_request_id (metadata (set_top_level_request_id x w)) = [x, x * x]
   \<and> unat (top_level_request_id (metadata (set_top_level_request_id x w)) ! 1)
       = (unat x * unat x) mod 2 ^ 64
   \<and> top_level_request_id (metadata (set_top_level_request_id 5 w)) = [5, 25]
   \<and> code (set_top_level_request_id x w) = code w
   \<and> aux_info (set_top_level_request_id x w) = aux_info w
   \<and> metadata (set_top_level_request_id x w)
       = (metadata w)\<lparr>top_level_request_id := [x, x * x]\<rparr>"
  by (simp add: set_top_level_request_id_def unat_word_ariths)

text \<open>
  C1, the status guard's compare-and-restore. Let \<open>G\<close> be a guard constructed on the
  container at address \<open>a\<close> with the code \<open>S1\<close>, from the state \<open>s\<close>. The construction
  saves the container's code in \<open>prev_state\<close> and sets the code to \<open>S1\<close>, touching
  nothing else; the constructor with a code only builds the same guard when \<open>a\<close> is the
  thread's current container. A later \<open>ResetToPrevStatus\<close>, or the destructor, from any
  state \<open>t\<close> reads no unwritten member and yields: \<open>t\<close> with the container's code set
  back to the saved one when the code in \<open>t\<close> equals \<open>S1\<close>, and \<open>t\<close> itself
  otherwise. In particular, when other code has set the code to some \<open>S3\<close> different
  from \<open>S1\<close>, the destructor leaves the state as it is, with the code \<open>S3\<close>.
\<close>

theorem ScopedWaitStatus_compare_and_restore:
  assumes "ScopedWaitStatus_ctor (Some a) S1 s = (G, s1)"
  shows "wait_state G = Some a \<and> state G = S1
   \<and> prev_state G = Some (get_state (objects s a))
   \<and> s1 = at_ptr a (set_state S1) s
   \<and> get_state (objects s1 a) = S1
   \<and> (CurrentWaitState s = Some a \<longrightarrow> ScopedWaitStatus_ctor_current S1 s = (G, s1))
   \<and> ResetToPrevStatus G t =
       Inr (if get_state (objects t a) = S1
            then at_ptr a (set_state (get_state (objects s a))) t else t)
   \<and> ScopedWaitStatus_dtor G t = ResetToPrevStatus G t
   \<and> (S3 \<noteq> S1 \<longrightarrow>
        ScopedWaitStatus_dtor G (at_ptr a (set_state S3) s1) = Inr (at_ptr a (set_state S3) s1)
        \<and> get_state (objects (at_ptr a (set_state S3) s1) a) = S3)"
  using assms
  by (auto simp add: ScopedWaitStatus_ctor_def ScopedWaitStatus_ctor_current_def
      ResetToPrevStatus_def ScopedWaitStatus_dtor_def at_ptr_def set_state_def get_state_def)

text \<open>
  The theorem on the busy thread, whose current container 0 has the code \<open>Unused\<close>:
  the guard sets the code 1, other code sets 3, and the destructor leaves 3.
\<close>

theorem ScopedWaitStatus_compare_and_restore_witness:
  "ScopedWaitStatus_ctor (Some 0) 1 busy_thread
     = (\<lparr>wait_state = Some 0, state = 1, prev_state = Some 0\<rparr>, at_ptr 0 (set_state 1) busy_thread)
   \<and> CurrentWaitState busy_thread = Some 0
   \<and> ScopedWaitStatus_ctor_current 1 busy_thread
     = (\<lparr>wait_state = Some 0, state = 1, prev_state = Some 0\<rparr>, at_ptr 0 (set_state 1) busy_thread)
   \<and> (3 :: WaitStateCode) \<noteq> 1
   \<and> ScopedWaitStatus_dtor \<lparr>wait_state = Some 0, state = 1, prev_state = Some 0\<rparr>
        (at_ptr 0 (set_state 3) (at_ptr 0 (set_state 1) busy_thread))
       = Inr (at_ptr 0 (set_state 3) (at_ptr 0 (set_state 1) busy_thread))
   \<and> get_state (objects (at_ptr 0 (set_state 3) (at_ptr 0 (set_state 1) busy_thread)) 0) = 3"
proof -
  have c: "ScopedWaitStatus_ctor (Some 0) 1 busy_thread
     = (\<lparr>wait_state = Some 0, state = 1, prev_state = Some 0\<rparr>, at_ptr 0 (set_state 1) busy_thread)"
    by (simp add: ScopedWaitStatus_ctor_def busy_thread_def get_state_def WaitStateInfo_init_def
        Unused_def)
  have n: "(3 :: WaitStateCode) \<noteq> 1"
    by simp
  have b: "CurrentWaitState busy_thread = Some 0"
    by (simp add: CurrentWaitState_def busy_thread_def)
  from ScopedWaitStatus_compare_and_restore [OF c, where ?S3.0 = 3] n b
  have "ScopedWaitStatus_ctor_current 1 busy_thread
     = (\<lparr>wait_state = Some 0, state = 1, prev_state = Some 0\<rparr>, at_ptr 0 (set_state 1) busy_thread)
   \<and> ScopedWaitStatus_dtor \<lparr>wait_state = Some 0, state = 1, prev_state = Some 0\<rparr>
        (at_ptr 0 (set_state 3) (at_ptr 0 (set_state 1) busy_thread))
       = Inr (at_ptr 0 (set_state 3) (at_ptr 0 (set_state 1) busy_thread))
   \<and> get_state (objects (at_ptr 0 (set_state 3) (at_ptr 0 (set_state 1) busy_thread)) 0) = 3"
    by blast
  with c n b show ?thesis
    by blast
qed

text \<open>
  C2, the adoption guard. Constructing a guard with the pointer \<open>w\<close> (null or not) saves
  the thread's slot in the guard and writes \<open>w\<close> into the slot, changing no container.
  The destructor, run from any state \<open>t\<close> (whatever has been written to the slot or the
  containers in between), puts the saved pointer back and changes no container. With the
  slot null at first, nesting guards for \<open>c1\<close> and then \<open>c2\<close> shows \<open>c1\<close> and then
  \<open>c2\<close> in the slot; destructing the inner guard restores \<open>c1\<close>, and destructing the
  outer one restores null.
\<close>

theorem ScopedWaitState_restores_unconditionally:
  "(case ScopedWaitState_ctor w s of (G, s1) \<Rightarrow>
      prev_wait_state G = CurrentWaitState s
      \<and> CurrentWaitState s1 = w
      \<and> objects s1 = objects s
      \<and> CurrentWaitState (ScopedWaitState_dtor G t) = CurrentWaitState s
      \<and> objects (ScopedWaitState_dtor G t) = objects t)
   \<and> (CurrentWaitState s0 = None \<longrightarrow>
       (case ScopedWaitState_ctor (Some c1) s0 of (G1, t1) \<Rightarrow>
        case ScopedWaitState_ctor (Some c2) t1 of (G2, t2) \<Rightarrow>
          CurrentWaitState t1 = Some c1
          \<and> CurrentWaitState t2 = Some c2
          \<and> CurrentWaitState (ScopedWaitState_dtor G2 t2) = Some c1
          \<and> CurrentWaitState (ScopedWaitState_dtor G1 (ScopedWaitState_dtor G2 t2)) = None))"
  by (simp add: ScopedWaitState_ctor_def ScopedWaitState_dtor_def CurrentWaitState_def
      SetCurrentWaitState_def)

text \<open>The nested scenario on the idle thread, with the containers 1 and 2.\<close>

theorem ScopedWaitState_restores_unconditionally_witness:
  "CurrentWaitState idle_thread = None
   \<and> CurrentWaitState (snd (ScopedWaitState_ctor (Some 1) idle_thread)) = Some 1
   \<and> CurrentWaitState (ScopedWaitState_dtor (fst (ScopedWaitState_ctor (Some 1) idle_thread))
        (ScopedWaitState_dtor
           (fst (ScopedWaitState_ctor (Some 2) (snd (ScopedWaitState_ctor (Some 1) idle_thread))))
           (snd (ScopedWaitState_ctor (Some 2) (snd (ScopedWaitState_ctor (Some 1) idle_thread)))))) = None"
  using ScopedWaitState_restores_unconditionally
          [where w = "Some 1" and s = idle_thread and t = idle_thread and ?s0.0 = idle_thread
             and ?c1.0 = 1 and ?c2.0 = 2]
  by (simp add: idle_thread_def CurrentWaitState_def split_beta)

text \<open>
  C8, no current wait state. When the calling thread's slot is null,
  \<open>CurrentWaitState\<close> returns the null pointer; \<open>SET_WAIT_STATUS\<close> (and
  \<open>SET_WAIT_STATUS_TO\<close> on a null pointer) return the state unchanged; a status guard
  constructed with a code only, or with a null container, leaves the state unchanged and
  holds the null pointer; and its \<open>ResetToPrevStatus\<close> and destructor, from any later
  state \<open>t\<close>, return \<open>t\<close> unchanged and without a fault.
\<close>

theorem no_current_wait_state_noop:
  assumes "threadlocal_wait_state s = None"
  shows "CurrentWaitState s = None
   \<and> SET_WAIT_STATUS st s = s
   \<and> SET_WAIT_STATUS_TO None st s = s
   \<and> ScopedWaitStatus_ctor_current st s = (\<lparr>wait_state = None, state = st, prev_state = None\<rparr>, s)
   \<and> ScopedWaitStatus_ctor None st s = (\<lparr>wait_state = None, state = st, prev_state = None\<rparr>, s)
   \<and> ResetToPrevStatus (fst (ScopedWaitStatus_ctor_current st s)) t = Inr t
   \<and> ScopedWaitStatus_dtor (fst (ScopedWaitStatus_ctor_current st s)) t = Inr t
   \<and> ResetToPrevStatus (fst (ScopedWaitStatus_ctor None st s)) t = Inr t
   \<and> ScopedWaitStatus_dtor (fst (ScopedWaitStatus_ctor None st s)) t = Inr t"
  using assms
  by (simp add: CurrentWaitState_def SET_WAIT_STATUS_def SET_WAIT_STATUS_TO_def
      ScopedWaitStatus_ctor_current_def ScopedWaitStatus_ctor_def ResetToPrevStatus_def
      ScopedWaitStatus_dtor_def)

text \<open>The theorem on the idle thread, with the code 7.\<close>

theorem no_current_wait_state_noop_witness:
  "threadlocal_wait_state idle_thread = None
   \<and> CurrentWaitState idle_thread = None
   \<and> SET_WAIT_STATUS 7 idle_thread = idle_thread
   \<and> ScopedWaitStatus_ctor_current 7 idle_thread
       = (\<lparr>wait_state = None, state = 7, prev_state = None\<rparr>, idle_thread)
   \<and> ScopedWaitStatus_dtor (fst (ScopedWaitStatus_ctor_current 7 idle_thread)) idle_thread
       = Inr idle_thread"
proof -
  have h: "threadlocal_wait_state idle_thread = None"
    by (simp add: idle_thread_def)
  from no_current_wait_state_noop [OF h, of 7 idle_thread] h show ?thesis
    by blast
qed

text \<open>
  C10, the unwritten \<open>prev_state\<close>. A status guard constructed with a null container
  changes nothing and leaves \<open>prev_state\<close> unwritten (\<open>None\<close>). Every
  \<open>ResetToPrevStatus\<close> and the destructor, from any state \<open>t\<close>, return \<open>Inr t\<close>: no
  container's code changes and the unwritten member is not read (a read would be the
  fault \<open>indeterminate_read\<close>). The result is the same whatever the member holds.
\<close>

theorem empty_guard_prev_state_never_read:
  "(case ScopedWaitStatus_ctor None st s of (G, s1) \<Rightarrow>
      s1 = s \<and> wait_state G = None \<and> prev_state G = None
      \<and> ResetToPrevStatus G t = Inr t
      \<and> ScopedWaitStatus_dtor G t = Inr t
      \<and> ResetToPrevStatus (G\<lparr>prev_state := p\<rparr>) t = Inr t
      \<and> ScopedWaitStatus_dtor (G\<lparr>prev_state := p\<rparr>) t = Inr t)"
  by (simp add: ScopedWaitStatus_ctor_def ResetToPrevStatus_def ScopedWaitStatus_dtor_def)

subsection \<open>The wire conversions\<close>

text \<open>
  Below \<open>2^31\<close> elements the cast of a vector's size to \<^verbatim>\<open>int\<close> is exact; a vector of
  two elements is its first two elements.
\<close>

lemma size_as_int_small: "length xs < 2 ^ 31 \<Longrightarrow> size_as_int xs = int (length xs)"
proof -
  assume "length xs < 2 ^ 31"
  then have "int (length xs) < 2 ^ 31"
    by (metis of_nat_less_iff of_nat_numeral of_nat_power)
  moreover have "- (2 ^ 31) \<le> int (length xs)"
    by (rule order_trans [of _ 0]) simp_all
  ultimately have "signed_take_bit 31 (int (length xs)) = int (length xs)"
    by (simp add: signed_take_bit_int_eq_self)
  then show ?thesis
    by (simp add: size_as_int_def signed_of_nat)
qed

lemma size_as_int_two: "length xs = 2 \<Longrightarrow> size_as_int xs = 2"
  by (simp add: size_as_int_def)

lemma list_of_length_two: "length xs = 2 \<Longrightarrow> [xs ! 0, xs ! Suc 0] = xs"
  by (cases xs; cases "tl xs") auto

text \<open>Field by field: the two merges and the conversion from a message.\<close>

lemma UpdateFrom_fields:
  "top_level_request_id (AUHMetadata_UpdateFrom A B) =
     (if top_level_request_id B = [] then top_level_request_id A else top_level_request_id B)"
  "top_level_node_id (AUHMetadata_UpdateFrom A B) =
     (if top_level_node_id B = [] then top_level_node_id A else top_level_node_id B)"
  "query_id (AUHMetadata_UpdateFrom A B) = (if query_id B = 0 then query_id A else query_id B)"
  "current_request_id (AUHMetadata_UpdateFrom A B) =
     (if current_request_id B = 0 then current_request_id A else current_request_id B)"
  "client_node_host (AUHMetadata_UpdateFrom A B) =
     (if client_node_host B = 0 then client_node_host A else client_node_host B)"
  "client_node_port (AUHMetadata_UpdateFrom A B) =
     (if client_node_port B = 0 then client_node_port A else client_node_port B)"
  by (simp_all add: AUHMetadata_UpdateFrom_def Let_def)

lemma UpdateFromPB_fields:
  "top_level_node_id (AUHMetadata_UpdateFromPB pb m) =
     (if pb_top_level_node_id pb = [] then top_level_node_id m else pb_top_level_node_id pb)"
  "top_level_request_id (AUHMetadata_UpdateFromPB pb m) =
     (if pb_top_level_request_id pb = [] then top_level_request_id m
      else pb_top_level_request_id pb)"
  "query_id (AUHMetadata_UpdateFromPB pb m) =
     (case pb_query_id pb of None \<Rightarrow> query_id m | Some v \<Rightarrow> v)"
  "current_request_id (AUHMetadata_UpdateFromPB pb m) =
     (case pb_current_request_id pb of None \<Rightarrow> current_request_id m | Some v \<Rightarrow> v)"
  "client_node_host (AUHMetadata_UpdateFromPB pb m) =
     (case pb_client_node_host pb of None \<Rightarrow> client_node_host m | Some v \<Rightarrow> v)"
  "client_node_port (AUHMetadata_UpdateFromPB pb m) =
     (if getter (pb_client_node_port pb) = 0 then client_node_port m
      else ucast (getter (pb_client_node_port pb)))"
  by (simp_all add: AUHMetadata_UpdateFromPB_def Let_def has_def has_repeated_def getter_def
      split: option.split)

lemma UpdateMetadataFromPB_current:
  "CurrentWaitState s = Some a \<Longrightarrow>
     metadata (objects (UpdateMetadataFromPB pb s) a)
       = AUHMetadata_UpdateFrom (metadata (objects s a)) (AUHMetadata_FromPB pb)"
  by (simp add: UpdateMetadataFromPB_def UpdateMetadata_def at_ptr_def)

lemma UpdateMetadataFromPB_none:
  "CurrentWaitState s = None \<Longrightarrow> UpdateMetadataFromPB pb s = s"
  by (simp add: UpdateMetadataFromPB_def)

lemma FromPB_fields:
  "top_level_request_id (AUHMetadata_FromPB pb) = pb_top_level_request_id pb"
  "top_level_node_id (AUHMetadata_FromPB pb) = pb_top_level_node_id pb"
  "query_id (AUHMetadata_FromPB pb) = getter (pb_query_id pb)"
  "current_request_id (AUHMetadata_FromPB pb) = getter (pb_current_request_id pb)"
  "client_node_host (AUHMetadata_FromPB pb) = getter (pb_client_node_host pb)"
  "client_node_port (AUHMetadata_FromPB pb) = ucast (getter (pb_client_node_port pb))"
  by (simp_all add: AUHMetadata_FromPB_def)

text \<open>
  C4 as stated fails for \<open>AUHMetadata::UpdateFromPB\<close>: the tests are on \<^verbatim>\<open>has_x()\<close>,
  not on the value. A message that has \<^verbatim>\<open>query_id\<close> set to zero (its getter returns 0)
  overwrites the existing query id 42 with 0.
\<close>

theorem UpdateFromPB_explicit_zero_counterexample:
  "query_id (AUHMetadata_UpdateFromPB (AUHMetadataPB_empty\<lparr>pb_query_id := Some 0\<rparr>)
              (AUHMetadata_default\<lparr>query_id := 42\<rparr>)) = 0
   \<and> getter (pb_query_id (AUHMetadataPB_empty\<lparr>pb_query_id := Some 0\<rparr>)) = (0 :: 64 word)
   \<and> query_id (AUHMetadata_default\<lparr>query_id := 42\<rparr>) = 42"
  by (simp add: AUHMetadata_UpdateFromPB_def AUHMetadataPB_empty_def AUHMetadata_default_def
      has_def has_repeated_def getter_def)

text \<open>
  C4, amended. \<open>AUHMetadata::UpdateFromPB\<close> leaves a field as it was when the message
  does not have it: an empty repeated field, a singular field that is not set, and for
  the port a value of zero. \<open>WaitStateInfo::UpdateMetadataFromPB\<close> does nothing when the
  thread has no current wait state; otherwise, in the current container, it leaves every
  field as it was whose incoming value is zero or empty (whether the message has the
  field or not).
\<close>

theorem read_merge_keeps_absent_fields:
  "(pb_top_level_node_id pb = [] \<longrightarrow>
      top_level_node_id (AUHMetadata_UpdateFromPB pb m) = top_level_node_id m)
   \<and> (pb_top_level_request_id pb = [] \<longrightarrow>
      top_level_request_id (AUHMetadata_UpdateFromPB pb m) = top_level_request_id m)
   \<and> (pb_query_id pb = None \<longrightarrow> query_id (AUHMetadata_UpdateFromPB pb m) = query_id m)
   \<and> (pb_current_request_id pb = None \<longrightarrow>
      current_request_id (AUHMetadata_UpdateFromPB pb m) = current_request_id m)
   \<and> (pb_client_node_host pb = None \<longrightarrow>
      client_node_host (AUHMetadata_UpdateFromPB pb m) = client_node_host m)
   \<and> (getter (pb_client_node_port pb) = 0 \<longrightarrow>
      client_node_port (AUHMetadata_UpdateFromPB pb m) = client_node_port m)
   \<and> (CurrentWaitState s = None \<longrightarrow> UpdateMetadataFromPB pb s = s)
   \<and> (CurrentWaitState s = Some a \<longrightarrow>
        (pb_top_level_node_id pb = [] \<longrightarrow>
           top_level_node_id (metadata (objects (UpdateMetadataFromPB pb s) a))
             = top_level_node_id (metadata (objects s a)))
        \<and> (pb_top_level_request_id pb = [] \<longrightarrow>
           top_level_request_id (metadata (objects (UpdateMetadataFromPB pb s) a))
             = top_level_request_id (metadata (objects s a)))
        \<and> (getter (pb_query_id pb) = 0 \<longrightarrow>
           query_id (metadata (objects (UpdateMetadataFromPB pb s) a))
             = query_id (metadata (objects s a)))
        \<and> (getter (pb_current_request_id pb) = 0 \<longrightarrow>
           current_request_id (metadata (objects (UpdateMetadataFromPB pb s) a))
             = current_request_id (metadata (objects s a)))
        \<and> (getter (pb_client_node_host pb) = 0 \<longrightarrow>
           client_node_host (metadata (objects (UpdateMetadataFromPB pb s) a))
             = client_node_host (metadata (objects s a)))
        \<and> (getter (pb_client_node_port pb) = 0 \<longrightarrow>
           client_node_port (metadata (objects (UpdateMetadataFromPB pb s) a))
             = client_node_port (metadata (objects s a))))"
  by (simp add: UpdateFromPB_fields UpdateMetadataFromPB_current UpdateMetadataFromPB_none
      UpdateFrom_fields FromPB_fields)

text \<open>
  The theorem at the message with nothing written: the populated metadata stays as it
  is, on the record and in the current container of the busy thread, and the idle thread
  is unchanged.
\<close>

theorem read_merge_keeps_absent_fields_witness:
  "pb_top_level_node_id AUHMetadataPB_empty = []
   \<and> pb_top_level_request_id AUHMetadataPB_empty = []
   \<and> pb_query_id AUHMetadataPB_empty = None
   \<and> pb_current_request_id AUHMetadataPB_empty = None
   \<and> pb_client_node_host AUHMetadataPB_empty = None
   \<and> getter (pb_client_node_port AUHMetadataPB_empty) = 0
   \<and> getter (pb_query_id AUHMetadataPB_empty) = 0
   \<and> getter (pb_current_request_id AUHMetadataPB_empty) = 0
   \<and> getter (pb_client_node_host AUHMetadataPB_empty) = 0
   \<and> CurrentWaitState idle_thread = None
   \<and> CurrentWaitState busy_thread = Some 0
   \<and> AUHMetadata_UpdateFromPB AUHMetadataPB_empty sample_metadata = sample_metadata
   \<and> UpdateMetadataFromPB AUHMetadataPB_empty idle_thread = idle_thread
   \<and> metadata (objects (UpdateMetadataFromPB AUHMetadataPB_empty busy_thread) 0) = sample_metadata"
proof -
  have h: "pb_top_level_node_id AUHMetadataPB_empty = []"
    "pb_top_level_request_id AUHMetadataPB_empty = []"
    "pb_query_id AUHMetadataPB_empty = None"
    "pb_current_request_id AUHMetadataPB_empty = None"
    "pb_client_node_host AUHMetadataPB_empty = None"
    "getter (pb_client_node_port AUHMetadataPB_empty) = 0"
    "getter (pb_query_id AUHMetadataPB_empty) = 0"
    "getter (pb_current_request_id AUHMetadataPB_empty) = 0"
    "getter (pb_client_node_host AUHMetadataPB_empty) = 0"
    by (simp_all add: AUHMetadataPB_empty_def getter_def)
  have c: "CurrentWaitState idle_thread = None" "CurrentWaitState busy_thread = Some 0"
    by (simp_all add: CurrentWaitState_def idle_thread_def busy_thread_def)
  have o: "metadata (objects busy_thread 0) = sample_metadata"
    by (simp add: busy_thread_def WaitStateInfo_init_def)
  from read_merge_keeps_absent_fields
         [where pb = AUHMetadataPB_empty and m = sample_metadata and s = idle_thread and a = 0] h c
  have 1: "AUHMetadata_UpdateFromPB AUHMetadataPB_empty sample_metadata = sample_metadata"
    and 2: "UpdateMetadataFromPB AUHMetadataPB_empty idle_thread = idle_thread"
    by (simp_all add: AUHMetadata.equality)
  from read_merge_keeps_absent_fields
         [where pb = AUHMetadataPB_empty and m = sample_metadata and s = busy_thread and a = 0] h c o
  have 3: "metadata (objects (UpdateMetadataFromPB AUHMetadataPB_empty busy_thread) 0)
             = sample_metadata"
    by (simp add: AUHMetadata.equality)
  from h c 1 2 3 show ?thesis
    by simp
qed

text \<open>
  C5 as stated fails for \<open>AUHAuxInfo::ToPB\<close>: its three setters run without a test, so an
  empty tablet id is written. The message then has the field, with the empty string.
\<close>

theorem AUHAuxInfo_ToPB_writes_empty_counterexample:
  "pb_tablet_id (AUHAuxInfo_ToPB \<lparr>tablet_id = [], table_id = ''t'', method_name = ''m''\<rparr>
                   AUHAuxInfoPB_empty) = Some []
   \<and> has (pb_tablet_id (AUHAuxInfo_ToPB \<lparr>tablet_id = [], table_id = ''t'', method_name = ''m''\<rparr>
                   AUHAuxInfoPB_empty))
   \<and> pb_tablet_id AUHAuxInfoPB_empty = None"
  by (simp add: AUHAuxInfo_ToPB_def AUHAuxInfoPB_empty_def has_def)

text \<open>
  C5, amended. \<open>AUHMetadata::ToPB\<close> leaves a field of the message as it was (writes
  nothing) for each scalar that is zero and for each id vector whose size is not 2 (for
  the sizes below \<open>2^31\<close>, which the cast to \<^verbatim>\<open>int\<close> in the test keeps).
  \<open>AUHAuxInfo::ToPB\<close> writes all three strings, whatever they hold.
\<close>

theorem ToPB_omits_unset_metadata:
  "(length (top_level_request_id m) \<noteq> 2 \<and> length (top_level_request_id m) < 2 ^ 31 \<longrightarrow>
      pb_top_level_request_id (AUHMetadata_ToPB m pb) = pb_top_level_request_id pb)
   \<and> (length (top_level_node_id m) \<noteq> 2 \<and> length (top_level_node_id m) < 2 ^ 31 \<longrightarrow>
      pb_top_level_node_id (AUHMetadata_ToPB m pb) = pb_top_level_node_id pb)
   \<and> (query_id m = 0 \<longrightarrow> pb_query_id (AUHMetadata_ToPB m pb) = pb_query_id pb)
   \<and> (current_request_id m = 0 \<longrightarrow>
      pb_current_request_id (AUHMetadata_ToPB m pb) = pb_current_request_id pb)
   \<and> (client_node_host m = 0 \<longrightarrow>
      pb_client_node_host (AUHMetadata_ToPB m pb) = pb_client_node_host pb)
   \<and> (client_node_port m = 0 \<longrightarrow>
      pb_client_node_port (AUHMetadata_ToPB m pb) = pb_client_node_port pb)
   \<and> pb_tablet_id (AUHAuxInfo_ToPB x xpb) = Some (tablet_id x)
   \<and> pb_table_id (AUHAuxInfo_ToPB x xpb) = Some (table_id x)
   \<and> pb_method (AUHAuxInfo_ToPB x xpb) = Some (method_name x)"
  by (simp add: AUHMetadata_ToPB_def AUHAuxInfo_ToPB_def Let_def size_as_int_small)

text \<open>
  The theorem at the default metadata with a node id of three elements: nothing is
  written into the empty message.
\<close>

theorem ToPB_omits_unset_metadata_witness:
  "length (top_level_request_id (AUHMetadata_default\<lparr>top_level_node_id := [1, 2, 3]\<rparr>)) \<noteq> 2
   \<and> length (top_level_request_id (AUHMetadata_default\<lparr>top_level_node_id := [1, 2, 3]\<rparr>)) < 2 ^ 31
   \<and> length (top_level_node_id (AUHMetadata_default\<lparr>top_level_node_id := [1, 2, 3]\<rparr>)) \<noteq> 2
   \<and> length (top_level_node_id (AUHMetadata_default\<lparr>top_level_node_id := [1, 2, 3]\<rparr>)) < 2 ^ 31
   \<and> query_id (AUHMetadata_default\<lparr>top_level_node_id := [1, 2, 3]\<rparr>) = 0
   \<and> current_request_id (AUHMetadata_default\<lparr>top_level_node_id := [1, 2, 3]\<rparr>) = 0
   \<and> client_node_host (AUHMetadata_default\<lparr>top_level_node_id := [1, 2, 3]\<rparr>) = 0
   \<and> client_node_port (AUHMetadata_default\<lparr>top_level_node_id := [1, 2, 3]\<rparr>) = 0
   \<and> AUHMetadata_ToPB (AUHMetadata_default\<lparr>top_level_node_id := [1, 2, 3]\<rparr>) AUHMetadataPB_empty
       = AUHMetadataPB_empty"
proof -
  have h: "length (top_level_request_id (AUHMetadata_default\<lparr>top_level_node_id := [1, 2, 3]\<rparr>)) \<noteq> 2"
   "length (top_level_request_id (AUHMetadata_default\<lparr>top_level_node_id := [1, 2, 3]\<rparr>)) < 2 ^ 31"
   "length (top_level_node_id (AUHMetadata_default\<lparr>top_level_node_id := [1, 2, 3]\<rparr>)) \<noteq> 2"
   "length (top_level_node_id (AUHMetadata_default\<lparr>top_level_node_id := [1, 2, 3]\<rparr>)) < 2 ^ 31"
   "query_id (AUHMetadata_default\<lparr>top_level_node_id := [1, 2, 3]\<rparr>) = 0"
   "current_request_id (AUHMetadata_default\<lparr>top_level_node_id := [1, 2, 3]\<rparr>) = 0"
   "client_node_host (AUHMetadata_default\<lparr>top_level_node_id := [1, 2, 3]\<rparr>) = 0"
   "client_node_port (AUHMetadata_default\<lparr>top_level_node_id := [1, 2, 3]\<rparr>) = 0"
    by (simp_all add: AUHMetadata_default_def)
  from ToPB_omits_unset_metadata
         [where m = "AUHMetadata_default\<lparr>top_level_node_id := [1, 2, 3]\<rparr>"
            and pb = AUHMetadataPB_empty] h
  have "AUHMetadata_ToPB (AUHMetadata_default\<lparr>top_level_node_id := [1, 2, 3]\<rparr>) AUHMetadataPB_empty
       = AUHMetadataPB_empty"
    by (simp add: AUHMetadataPB.equality)
  with h show ?thesis
    by simp
qed

text \<open>
  C6, the wire round trip. For a metadata whose two id vectors have exactly two elements
  (the scalars may hold any value, so the fully populated records are covered) and any
  aux record, \<open>ToPB\<close> into an empty message followed by \<open>FromPB\<close> gives the original
  back. For the zero-valued metadata \<open>ToPB\<close> writes nothing (the message stays empty,
  no field is set to a literal zero) and \<open>FromPB\<close> gives the zero-valued metadata.
\<close>

theorem AUHMetadata_roundtrip:
  assumes "length (top_level_request_id m) = 2" and "length (top_level_node_id m) = 2"
  shows "AUHMetadata_FromPB (AUHMetadata_ToPB m AUHMetadataPB_empty) = m
   \<and> AUHAuxInfo_FromPB (AUHAuxInfo_ToPB x AUHAuxInfoPB_empty) = x
   \<and> AUHMetadata_ToPB AUHMetadata_default AUHMetadataPB_empty = AUHMetadataPB_empty
   \<and> AUHMetadata_FromPB (AUHMetadata_ToPB AUHMetadata_default AUHMetadataPB_empty)
       = AUHMetadata_default"
  using assms
  by (simp add: AUHMetadata_FromPB_def AUHMetadata_ToPB_def AUHMetadataPB_empty_def
      AUHAuxInfo_FromPB_def AUHAuxInfo_ToPB_def AUHAuxInfoPB_empty_def AUHMetadata_default_def
      size_as_int_two list_of_length_two Let_def getter_def string_getter_def size_as_int_def
      ucast_up_ucast_id is_up)

text \<open>The round trip of the populated sample records.\<close>

theorem AUHMetadata_roundtrip_witness:
  "length (top_level_request_id sample_metadata) = 2
   \<and> length (top_level_node_id sample_metadata) = 2
   \<and> AUHMetadata_FromPB (AUHMetadata_ToPB sample_metadata AUHMetadataPB_empty) = sample_metadata
   \<and> AUHAuxInfo_FromPB (AUHAuxInfo_ToPB sample_aux_info AUHAuxInfoPB_empty) = sample_aux_info"
proof -
  have h: "length (top_level_request_id sample_metadata) = 2"
    "length (top_level_node_id sample_metadata) = 2"
    by (simp_all add: sample_metadata_def)
  from AUHMetadata_roundtrip [OF h, of sample_aux_info] h show ?thesis
    by simp
qed

subsection \<open>The client address\<close>

text \<open>
  Digits and white space are ordinary characters, neither NUL nor a sign; \<open>c_str\<close>
  keeps a prefix without NUL; a scan over a run of characters of one kind stops where
  the run ends.
\<close>

lemma isdigit_plain:
  "isdigit c \<Longrightarrow> \<not> isspace c \<and> c \<noteq> CHR ''-'' \<and> c \<noteq> CHR ''+'' \<and> c \<noteq> CHR 0x00"
  by (auto simp add: isdigit_def isspace_def)

lemma isspace_plain: "isspace c \<Longrightarrow> c \<noteq> CHR 0x00"
  by (auto simp add: isspace_def)

lemma c_str_append: "CHR 0x00 \<notin> set xs \<Longrightarrow> c_str (xs @ ys) = xs @ c_str ys"
  by (induction xs) (auto simp add: c_str_def)

lemma c_str_head: "c_str r = [] \<or> (r \<noteq> [] \<and> hd (c_str r) = hd r)"
  by (cases r) (simp_all add: c_str_def)

lemma dropWhile_stops: "xs = [] \<or> \<not> P (hd xs) \<Longrightarrow> dropWhile P xs = xs"
  by (cases xs) auto

lemma takeWhile_stops: "xs = [] \<or> \<not> P (hd xs) \<Longrightarrow> takeWhile P xs = []"
  by (cases xs) auto

lemma takeWhile_run:
  "list_all P ds \<Longrightarrow> ys = [] \<or> \<not> P (hd ys) \<Longrightarrow> takeWhile P (ds @ ys) = ds"
  by (simp add: takeWhile_append2 list_all_iff takeWhile_stops)

lemma dropWhile_run:
  "list_all P ws \<Longrightarrow> ys = [] \<or> \<not> P (hd ys) \<Longrightarrow> dropWhile P (ws @ ys) = ys"
  by (simp add: dropWhile_append2 list_all_iff dropWhile_stops)

text \<open>
  \<open>stoi\<close> on a text that is white space, an optional sign, a run of digits and a rest
  that does not go on with a digit (and, when there is neither sign nor digit, does not
  go on with white space or a sign either).
\<close>

lemma stoi_lexical:
  assumes ws: "list_all isspace ws"
    and sg: "sg = [] \<or> sg = ''+'' \<or> sg = ''-''"
    and ds: "list_all isdigit ds"
    and rest: "rest = [] \<or> \<not> isdigit (hd rest)"
    and bare: "sg = [] \<and> ds = [] \<longrightarrow>
         rest = [] \<or> (\<not> isspace (hd rest) \<and> hd rest \<noteq> CHR ''+'' \<and> hd rest \<noteq> CHR ''-'')"
  shows "stoi (ws @ sg @ ds @ rest) =
     (if ds = [] then Inl invalid_argument
      else if sg = ''-''
        then (if decimal 0 ds \<le> 2 ^ 31 then Inr (- int (decimal 0 ds)) else Inl out_of_range)
        else (if decimal 0 ds < 2 ^ 31 then Inr (int (decimal 0 ds)) else Inl out_of_range))"
proof -
  define r where "r = c_str rest"
  have r: "r = [] \<or> \<not> isdigit (hd r)"
    using rest c_str_head [of rest] by (auto simp add: r_def)
  have rb: "sg = [] \<and> ds = [] \<longrightarrow>
      r = [] \<or> (\<not> isspace (hd r) \<and> hd r \<noteq> CHR ''+'' \<and> hd r \<noteq> CHR ''-'')"
    using bare c_str_head [of rest] by (auto simp add: r_def)
  have nul: "CHR 0x00 \<notin> set (ws @ sg @ ds)"
    using ws sg ds isdigit_plain isspace_plain by (auto simp add: list_all_iff)
  have cs: "c_str (ws @ sg @ ds @ rest) = ws @ sg @ ds @ r"
    using c_str_append [OF nul, of rest] by (simp add: r_def)
  have tk: "takeWhile isdigit (ds @ r) = ds"
    using ds r by (rule takeWhile_run)
  have "sg @ ds @ r = [] \<or> \<not> isspace (hd (sg @ ds @ r))"
  proof (cases "sg = []")
    case False
    with sg show ?thesis by (auto simp add: isspace_def)
  next
    case True
    show ?thesis
    proof (cases ds)
      case Nil
      with True rb show ?thesis by auto
    next
      case (Cons d ds')
      with ds have "isdigit d" by simp
      with Cons True show ?thesis using isdigit_plain by auto
    qed
  qed
  with ws have dw: "dropWhile isspace (ws @ sg @ ds @ r) = sg @ ds @ r"
    by (rule dropWhile_run)
  have s1: "dropWhile isspace (c_str (ws @ sg @ ds @ rest)) = sg @ ds @ r"
    by (simp only: cs dw)
  have range: "(2 ^ 31 - 1 < int (decimal 0 ds)) = (\<not> decimal 0 ds < 2 ^ 31)"
    "(- int (decimal 0 ds) < - (2 ^ 31)) = (\<not> decimal 0 ds \<le> 2 ^ 31)"
    by auto
  consider (minus) "sg = ''-''" | (plus) "sg = ''+''" | (none) "sg = []"
    using sg by blast
  then show ?thesis
  proof cases
    case minus
    show ?thesis
      unfolding stoi_def s1 using minus tk range by (simp add: Let_def)
  next
    case plus
    show ?thesis
      unfolding stoi_def s1 using plus tk range by (simp add: Let_def)
  next
    case none
    show ?thesis
    proof (cases ds)
      case Nil
      with none rb have "r = [] \<or> (hd r \<noteq> CHR ''+'' \<and> hd r \<noteq> CHR ''-'')"
        by auto
      with Nil none r show ?thesis
        unfolding stoi_def s1 using takeWhile_stops [of r isdigit]
        by (cases r) (auto simp add: Let_def)
    next
      case (Cons d ds')
      with ds have "isdigit d" by simp
      then have "d \<noteq> CHR ''-''" "d \<noteq> CHR ''+''"
        using isdigit_plain by blast+
      with Cons none tk range show ?thesis
        unfolding stoi_def s1 by (simp add: Let_def)
    qed
  qed
qed

text \<open>Every text is of that form.\<close>

lemma lexical_form_exists:
  "\<exists>ws sg ds rest. p = ws @ sg @ ds @ rest
     \<and> list_all isspace ws
     \<and> (sg = [] \<or> sg = ''+'' \<or> sg = ''-'')
     \<and> list_all isdigit ds
     \<and> (rest = [] \<or> \<not> isdigit (hd rest))
     \<and> (sg = [] \<and> ds = [] \<longrightarrow>
          rest = [] \<or> (\<not> isspace (hd rest) \<and> hd rest \<noteq> CHR ''+'' \<and> hd rest \<noteq> CHR ''-''))"
proof -
  define ws where "ws = takeWhile isspace p"
  define r1 where "r1 = dropWhile isspace p"
  define sg where "sg = (if r1 \<noteq> [] \<and> (hd r1 = CHR ''+'' \<or> hd r1 = CHR ''-'') then [hd r1] else [])"
  define r2 where "r2 = (if r1 \<noteq> [] \<and> (hd r1 = CHR ''+'' \<or> hd r1 = CHR ''-'') then tl r1 else r1)"
  define ds where "ds = takeWhile isdigit r2"
  define rest where "rest = dropWhile isdigit r2"
  have 1: "p = ws @ sg @ ds @ rest"
    by (auto simp add: ws_def r1_def sg_def r2_def ds_def rest_def)
  have 2: "list_all isspace ws"
    by (auto simp add: ws_def list_all_iff dest: set_takeWhileD)
  have 3: "sg = [] \<or> sg = ''+'' \<or> sg = ''-''"
    by (auto simp add: sg_def)
  have 4: "list_all isdigit ds"
    by (auto simp add: ds_def list_all_iff dest: set_takeWhileD)
  have 5: "rest = [] \<or> \<not> isdigit (hd rest)"
    using hd_dropWhile [of isdigit r2] by (auto simp add: rest_def)
  have r1: "r1 = [] \<or> \<not> isspace (hd r1)"
    using hd_dropWhile [of isspace p] by (auto simp add: r1_def)
  have 6: "sg = [] \<and> ds = [] \<longrightarrow>
          rest = [] \<or> (\<not> isspace (hd rest) \<and> hd rest \<noteq> CHR ''+'' \<and> hd rest \<noteq> CHR ''-'')"
  proof
    assume a: "sg = [] \<and> ds = []"
    then have "r2 = r1" and ns: "r1 = [] \<or> (hd r1 \<noteq> CHR ''+'' \<and> hd r1 \<noteq> CHR ''-'')"
      by (auto simp add: sg_def r2_def split: if_splits)
    moreover from a have "rest = r2"
      using takeWhile_dropWhile_id [of isdigit r2] by (simp add: ds_def rest_def)
    ultimately show "rest = [] \<or> (\<not> isspace (hd rest) \<and> hd rest \<noteq> CHR ''+'' \<and> hd rest \<noteq> CHR ''-'')"
      using r1 by auto
  qed
  from 1 2 3 4 5 6 show ?thesis
    by blast
qed

text \<open>
  The first colon and the string without one; the value of a run of digits, digit by
  digit; the parser as one case distinction; the reset of a guard that a constructor has
  made; and the size test of \<open>ToPB\<close>, which passes only for a vector with at least two
  elements.
\<close>

lemma find_char_none: "c \<notin> set xs \<Longrightarrow> find_char c xs = None"
  by (induction xs) auto

lemma find_char_first: "c \<notin> set a \<Longrightarrow> find_char c (a @ c # b) = Some (length a)"
  by (induction a) auto

lemma decimal_snoc: "decimal acc (ds @ [c]) = 10 * decimal acc ds + digit_of c"
  by (induction ds arbitrary: acc) auto

lemma set_client_node_ip_unfold:
  "AUHMetadata_set_client_node_ip h e m =
     (case stoi (port_substr e) of
        Inl x \<Rightarrow> Inl (x, m\<lparr>client_node_host := h (c_str (host_substr e)), client_node_port := 0\<rparr>)
      | Inr v \<Rightarrow> Inr (m\<lparr>client_node_host := h (c_str (host_substr e)),
                        client_node_port := word_of_int v\<rparr>))"
  by (simp add: AUHMetadata_set_client_node_ip_def Let_def split: sum.split)

lemma constructed_guard_resets:
  "\<exists>t'. ResetToPrevStatus (fst (ScopedWaitStatus_ctor p st s)) t = Inr t'"
  by (cases p) (simp_all add: ScopedWaitStatus_ctor_def ResetToPrevStatus_def)

lemma size_as_int_two_in_range: "size_as_int xs = 2 \<Longrightarrow> 1 < length xs"
proof (rule ccontr)
  assume a: "size_as_int xs = 2" and "\<not> 1 < length xs"
  then have "length xs = 0 \<or> length xs = 1"
    by (cases "length xs") auto
  with a show False
    by (auto simp add: size_as_int_def)
qed

text \<open>
  C9 as stated fails: on a port that is not a number \<^verbatim>\<open>std::stoi\<close> throws. For the
  endpoint \<open>10.0.0.1:http\<close>, whatever the address parser returns, the call ends with
  \<open>invalid_argument\<close>, after the host has been stored and with the port at zero; it
  does not return.
\<close>

theorem set_client_node_ip_throws_counterexample:
  "(\<forall>h. AUHMetadata_set_client_node_ip h ''10.0.0.1:http'' AUHMetadata_default
          = Inl (invalid_argument, AUHMetadata_default\<lparr>client_node_host := h ''10.0.0.1''\<rparr>))
   \<and> \<not> (\<exists>h m'. AUHMetadata_set_client_node_ip h ''10.0.0.1:http'' AUHMetadata_default = Inr m')"
  by (simp add: AUHMetadata_set_client_node_ip_def host_substr_def port_substr_def stoi_def
      c_str_def isspace_def isdigit_def digit_of_def AUHMetadata_default_def)

text \<open>
  C9, amended. No operation other than the client-address parser signals a failure: the
  vector reads of \<open>AUHMetadata::ToPB\<close> stand behind a size test that puts them in range,
  and a status guard made by a constructor never reads its unwritten member (the other
  operations have no failure in their types). \<open>set_client_node_ip\<close> splits the string
  at its first colon, host text before and port text after; without a colon the whole
  string is both. The host text is not validated: for every address parser \<open>h\<close> the
  call stores what \<open>h\<close> returns on the host text (up to a NUL). The port text is read
  as white space, an optional sign and the longest run of digits, the rest being ignored;
  every text is of that form. With no digit there the call ends with
  \<open>invalid_argument\<close>; with a number outside \<^verbatim>\<open>int\<close> (\<open>2^31\<close> or more, or below
  \<open>-2^31\<close>) it ends with \<open>out_of_range\<close>; both leave the host stored and the port
  zero. In every other case the call returns, with the number reduced to 16 bits as the
  port and no other field changed.
\<close>

theorem set_client_node_ip_outcomes:
  "(CHR '':'' \<notin> set e \<longrightarrow> host_substr e = e \<and> port_substr e = e)
   \<and> (CHR '':'' \<notin> set a \<longrightarrow>
        host_substr (a @ CHR '':'' # b) = a \<and> port_substr (a @ CHR '':'' # b) = b)
   \<and> (port_substr e = ws @ sg @ ds @ rest
        \<and> list_all isspace ws
        \<and> (sg = [] \<or> sg = ''+'' \<or> sg = ''-'')
        \<and> list_all isdigit ds
        \<and> (rest = [] \<or> \<not> isdigit (hd rest))
        \<and> (sg = [] \<and> ds = [] \<longrightarrow>
             rest = [] \<or> (\<not> isspace (hd rest) \<and> hd rest \<noteq> CHR ''+'' \<and> hd rest \<noteq> CHR ''-''))
      \<longrightarrow> AUHMetadata_set_client_node_ip h e m =
            (if ds = []
             then Inl (invalid_argument,
                       m\<lparr>client_node_host := h (takeWhile (\<lambda>c. c \<noteq> CHR 0x00) (host_substr e)),
                         client_node_port := 0\<rparr>)
             else if sg = ''-''
             then (if decimal 0 ds \<le> 2 ^ 31
                   then Inr (m\<lparr>client_node_host := h (takeWhile (\<lambda>c. c \<noteq> CHR 0x00) (host_substr e)),
                              client_node_port := word_of_int (- int (decimal 0 ds))\<rparr>)
                   else Inl (out_of_range,
                             m\<lparr>client_node_host := h (takeWhile (\<lambda>c. c \<noteq> CHR 0x00) (host_substr e)),
                               client_node_port := 0\<rparr>))
             else (if decimal 0 ds < 2 ^ 31
                   then Inr (m\<lparr>client_node_host := h (takeWhile (\<lambda>c. c \<noteq> CHR 0x00) (host_substr e)),
                              client_node_port := word_of_nat (decimal 0 ds)\<rparr>)
                   else Inl (out_of_range,
                             m\<lparr>client_node_host := h (takeWhile (\<lambda>c. c \<noteq> CHR 0x00) (host_substr e)),
                               client_node_port := 0\<rparr>))))
   \<and> (\<exists>ws' sg' ds' rest'. port_substr e = ws' @ sg' @ ds' @ rest'
        \<and> list_all isspace ws'
        \<and> (sg' = [] \<or> sg' = ''+'' \<or> sg' = ''-'')
        \<and> list_all isdigit ds'
        \<and> (rest' = [] \<or> \<not> isdigit (hd rest'))
        \<and> (sg' = [] \<and> ds' = [] \<longrightarrow>
             rest' = [] \<or> (\<not> isspace (hd rest') \<and> hd rest' \<noteq> CHR ''+'' \<and> hd rest' \<noteq> CHR ''-'')))
   \<and> decimal 0 [] = 0
   \<and> decimal 0 (ds @ [c]) = 10 * decimal 0 ds + (of_char c - 48)
   \<and> (size_as_int xs = 2 \<longrightarrow> 1 < length xs)
   \<and> (\<exists>t'. ResetToPrevStatus (fst (ScopedWaitStatus_ctor p st s)) t = Inr t')"
proof -
  have 1: "CHR '':'' \<notin> set e \<longrightarrow> host_substr e = e \<and> port_substr e = e"
    by (simp add: host_substr_def port_substr_def find_char_none)
  have 2: "CHR '':'' \<notin> set a \<longrightarrow>
        host_substr (a @ CHR '':'' # b) = a \<and> port_substr (a @ CHR '':'' # b) = b"
    by (simp add: host_substr_def port_substr_def find_char_first)
  have 3: "port_substr e = ws @ sg @ ds @ rest
        \<and> list_all isspace ws
        \<and> (sg = [] \<or> sg = ''+'' \<or> sg = ''-'')
        \<and> list_all isdigit ds
        \<and> (rest = [] \<or> \<not> isdigit (hd rest))
        \<and> (sg = [] \<and> ds = [] \<longrightarrow>
             rest = [] \<or> (\<not> isspace (hd rest) \<and> hd rest \<noteq> CHR ''+'' \<and> hd rest \<noteq> CHR ''-''))
      \<longrightarrow> AUHMetadata_set_client_node_ip h e m =
            (if ds = []
             then Inl (invalid_argument,
                       m\<lparr>client_node_host := h (takeWhile (\<lambda>c. c \<noteq> CHR 0x00) (host_substr e)),
                         client_node_port := 0\<rparr>)
             else if sg = ''-''
             then (if decimal 0 ds \<le> 2 ^ 31
                   then Inr (m\<lparr>client_node_host := h (takeWhile (\<lambda>c. c \<noteq> CHR 0x00) (host_substr e)),
                              client_node_port := word_of_int (- int (decimal 0 ds))\<rparr>)
                   else Inl (out_of_range,
                             m\<lparr>client_node_host := h (takeWhile (\<lambda>c. c \<noteq> CHR 0x00) (host_substr e)),
                               client_node_port := 0\<rparr>))
             else (if decimal 0 ds < 2 ^ 31
                   then Inr (m\<lparr>client_node_host := h (takeWhile (\<lambda>c. c \<noteq> CHR 0x00) (host_substr e)),
                              client_node_port := word_of_nat (decimal 0 ds)\<rparr>)
                   else Inl (out_of_range,
                             m\<lparr>client_node_host := h (takeWhile (\<lambda>c. c \<noteq> CHR 0x00) (host_substr e)),
                               client_node_port := 0\<rparr>)))"
  proof
    assume a: "port_substr e = ws @ sg @ ds @ rest
        \<and> list_all isspace ws
        \<and> (sg = [] \<or> sg = ''+'' \<or> sg = ''-'')
        \<and> list_all isdigit ds
        \<and> (rest = [] \<or> \<not> isdigit (hd rest))
        \<and> (sg = [] \<and> ds = [] \<longrightarrow>
             rest = [] \<or> (\<not> isspace (hd rest) \<and> hd rest \<noteq> CHR ''+'' \<and> hd rest \<noteq> CHR ''-''))"
    then have "stoi (port_substr e) =
     (if ds = [] then Inl invalid_argument
      else if sg = ''-''
        then (if decimal 0 ds \<le> 2 ^ 31 then Inr (- int (decimal 0 ds)) else Inl out_of_range)
        else (if decimal 0 ds < 2 ^ 31 then Inr (int (decimal 0 ds)) else Inl out_of_range))"
      using stoi_lexical [of ws sg ds rest] by simp
    then show "AUHMetadata_set_client_node_ip h e m =
            (if ds = []
             then Inl (invalid_argument,
                       m\<lparr>client_node_host := h (takeWhile (\<lambda>c. c \<noteq> CHR 0x00) (host_substr e)),
                         client_node_port := 0\<rparr>)
             else if sg = ''-''
             then (if decimal 0 ds \<le> 2 ^ 31
                   then Inr (m\<lparr>client_node_host := h (takeWhile (\<lambda>c. c \<noteq> CHR 0x00) (host_substr e)),
                              client_node_port := word_of_int (- int (decimal 0 ds))\<rparr>)
                   else Inl (out_of_range,
                             m\<lparr>client_node_host := h (takeWhile (\<lambda>c. c \<noteq> CHR 0x00) (host_substr e)),
                               client_node_port := 0\<rparr>))
             else (if decimal 0 ds < 2 ^ 31
                   then Inr (m\<lparr>client_node_host := h (takeWhile (\<lambda>c. c \<noteq> CHR 0x00) (host_substr e)),
                              client_node_port := word_of_nat (decimal 0 ds)\<rparr>)
                   else Inl (out_of_range,
                             m\<lparr>client_node_host := h (takeWhile (\<lambda>c. c \<noteq> CHR 0x00) (host_substr e)),
                               client_node_port := 0\<rparr>)))"
      by (simp add: set_client_node_ip_unfold c_str_def)
  qed
  have 4: "decimal 0 [] = 0 \<and> decimal 0 (ds @ [c]) = 10 * decimal 0 ds + (of_char c - 48)"
    by (simp add: decimal_snoc digit_of_def)
  have 5: "size_as_int xs = 2 \<longrightarrow> 1 < length xs"
    using size_as_int_two_in_range by blast
  from 1 2 3 4 5 lexical_form_exists [of "port_substr e"] constructed_guard_resets [of p st s t]
  show ?thesis
    by blast
qed

text \<open>The endpoints of the examples, taken apart.\<close>

lemma endpoint_examples:
  "host_substr ''db:5432:x'' = ''db''" "port_substr ''db:5432:x'' = ''5432:x''"
  "host_substr ''10.0.0.1:http'' = ''10.0.0.1''" "port_substr ''10.0.0.1:http'' = ''http''"
  "host_substr ''10.0.0.1: -1 '' = ''10.0.0.1''" "port_substr ''10.0.0.1: -1 '' = '' -1 ''"
  "host_substr ''10.0.0.1:+99999999999'' = ''10.0.0.1''"
  "port_substr ''10.0.0.1:+99999999999'' = ''+99999999999''"
  "host_substr ''5433'' = ''5433''" "port_substr ''5433'' = ''5433''"
  by (simp_all add: host_substr_def port_substr_def)

lemma lexical_examples:
  "list_all isdigit ''5432''" "decimal 0 ''5432'' = 5432"
  "list_all isdigit ''5433''" "decimal 0 ''5433'' = 5433"
  "list_all isdigit ''1''" "decimal 0 ''1'' = 1"
  "list_all isdigit ''99999999999''" "decimal 0 ''99999999999'' = 99999999999"
  "list_all isspace '' ''"
  "\<not> isdigit (CHR '':'')" "\<not> isdigit (CHR '' '')"
  "\<not> isdigit (CHR ''h'')" "\<not> isspace (CHR ''h'')"
  by (simp_all add: isdigit_def isspace_def digit_of_def)

text \<open>
  The theorem at a string with no colon, at one with two colons, at a port that is a
  word, at a negative port between blanks, at a port beyond \<^verbatim>\<open>int\<close>, and at a vector
  of two elements; the address parser is arbitrary throughout.
\<close>

theorem set_client_node_ip_outcomes_witness:
  "CHR '':'' \<notin> set ''5433''
   \<and> host_substr ''5433'' = ''5433'' \<and> port_substr ''5433'' = ''5433''
   \<and> CHR '':'' \<notin> set ''db''
   \<and> host_substr (''db'' @ CHR '':'' # ''5432:x'') = ''db''
   \<and> port_substr (''db'' @ CHR '':'' # ''5432:x'') = ''5432:x''
   \<and> port_substr ''db:5432:x'' = [] @ [] @ ''5432'' @ '':x''
   \<and> list_all isdigit ''5432'' \<and> \<not> isdigit (hd '':x'') \<and> decimal 0 ''5432'' < 2 ^ 31
   \<and> (\<forall>h. AUHMetadata_set_client_node_ip h ''db:5432:x'' AUHMetadata_default
          = Inr (AUHMetadata_default\<lparr>client_node_host := h ''db'', client_node_port := 5432\<rparr>))
   \<and> port_substr ''10.0.0.1:http'' = [] @ [] @ [] @ ''http''
   \<and> \<not> isdigit (hd ''http'') \<and> \<not> isspace (hd ''http'')
   \<and> hd ''http'' \<noteq> CHR ''+'' \<and> hd ''http'' \<noteq> CHR ''-''
   \<and> (\<forall>h. AUHMetadata_set_client_node_ip h ''10.0.0.1:http'' AUHMetadata_default
          = Inl (invalid_argument, AUHMetadata_default\<lparr>client_node_host := h ''10.0.0.1''\<rparr>))
   \<and> port_substr ''10.0.0.1: -1 '' = '' '' @ ''-'' @ ''1'' @ '' ''
   \<and> list_all isspace '' '' \<and> list_all isdigit ''1'' \<and> \<not> isdigit (hd '' '')
   \<and> decimal 0 ''1'' \<le> 2 ^ 31
   \<and> (\<forall>h. AUHMetadata_set_client_node_ip h ''10.0.0.1: -1 '' AUHMetadata_default
          = Inr (AUHMetadata_default\<lparr>client_node_host := h ''10.0.0.1'',
                                     client_node_port := 65535\<rparr>))
   \<and> port_substr ''10.0.0.1:+99999999999'' = [] @ ''+'' @ ''99999999999'' @ []
   \<and> list_all isdigit ''99999999999'' \<and> \<not> decimal 0 ''99999999999'' < 2 ^ 31
   \<and> (\<forall>h. AUHMetadata_set_client_node_ip h ''10.0.0.1:+99999999999'' AUHMetadata_default
          = Inl (out_of_range, AUHMetadata_default\<lparr>client_node_host := h ''10.0.0.1''\<rparr>))
   \<and> (\<forall>h. AUHMetadata_set_client_node_ip h ''5433'' AUHMetadata_default
          = Inr (AUHMetadata_default\<lparr>client_node_host := h ''5433'', client_node_port := 5433\<rparr>))
   \<and> size_as_int [1, 2 :: 64 word] = 2 \<and> 1 < length [1, 2 :: 64 word]"
proof -
  note ex = endpoint_examples lexical_examples
  have d: "AUHMetadata_default\<lparr>client_node_host := v, client_node_port := 0\<rparr>
             = AUHMetadata_default\<lparr>client_node_host := v\<rparr>" for v
    by (simp add: AUHMetadata_default_def)
  have s: "size_as_int [1, 2 :: 64 word] = 2"
    by (simp add: size_as_int_def)
  have 1: "AUHMetadata_set_client_node_ip h ''db:5432:x'' AUHMetadata_default
          = Inr (AUHMetadata_default\<lparr>client_node_host := h ''db'', client_node_port := 5432\<rparr>)" for h
    using set_client_node_ip_outcomes
            [where h = h and e = "''db:5432:x''" and m = AUHMetadata_default
               and ws = "[]" and sg = "[]" and ds = "''5432''" and rest = "'':x''",
             THEN conjunct2, THEN conjunct2, THEN conjunct1, THEN mp]
    by (simp add: ex isdigit_def digit_of_def isspace_def)
  have 2: "AUHMetadata_set_client_node_ip h ''10.0.0.1:http'' AUHMetadata_default
          = Inl (invalid_argument, AUHMetadata_default\<lparr>client_node_host := h ''10.0.0.1''\<rparr>)" for h
    using set_client_node_ip_outcomes
            [where h = h and e = "''10.0.0.1:http''" and m = AUHMetadata_default
               and ws = "[]" and sg = "[]" and ds = "[]" and rest = "''http''",
             THEN conjunct2, THEN conjunct2, THEN conjunct1, THEN mp]
    by (simp add: ex d isdigit_def digit_of_def isspace_def)
  have 3: "AUHMetadata_set_client_node_ip h ''10.0.0.1: -1 '' AUHMetadata_default
          = Inr (AUHMetadata_default\<lparr>client_node_host := h ''10.0.0.1'',
                                     client_node_port := 65535\<rparr>)" for h
    using set_client_node_ip_outcomes
            [where h = h and e = "''10.0.0.1: -1 ''" and m = AUHMetadata_default
               and ws = "'' ''" and sg = "''-''" and ds = "''1''" and rest = "'' ''",
             THEN conjunct2, THEN conjunct2, THEN conjunct1, THEN mp]
    by (simp add: ex isdigit_def digit_of_def isspace_def)
  have 4: "AUHMetadata_set_client_node_ip h ''10.0.0.1:+99999999999'' AUHMetadata_default
          = Inl (out_of_range, AUHMetadata_default\<lparr>client_node_host := h ''10.0.0.1''\<rparr>)" for h
    using set_client_node_ip_outcomes
            [where h = h and e = "''10.0.0.1:+99999999999''" and m = AUHMetadata_default
               and ws = "[]" and sg = "''+''" and ds = "''99999999999''" and rest = "[]",
             THEN conjunct2, THEN conjunct2, THEN conjunct1, THEN mp]
    by (simp add: ex d isdigit_def digit_of_def isspace_def)
  have 5: "AUHMetadata_set_client_node_ip h ''5433'' AUHMetadata_default
          = Inr (AUHMetadata_default\<lparr>client_node_host := h ''5433'', client_node_port := 5433\<rparr>)" for h
    using set_client_node_ip_outcomes
            [where h = h and e = "''5433''" and m = AUHMetadata_default
               and ws = "[]" and sg = "[]" and ds = "''5433''" and rest = "[]",
             THEN conjunct2, THEN conjunct2, THEN conjunct1, THEN mp]
    by (simp add: ex isdigit_def digit_of_def isspace_def)
  have 6: "1 < length [1, 2 :: 64 word]"
    using set_client_node_ip_outcomes [where xs = "[1, 2 :: 64 word]"] s by blast
  from 1 2 3 4 5 6 s show ?thesis
    by (simp add: ex isdigit_def digit_of_def isspace_def)
qed

end
